theory Spec2Isabelle
  imports Main "HOL-Library.AList"
begin

section \<open>The shader-program build pipeline of the OpenGL ES examples\<close>

text \<open>
  Every example of the repository builds its shader program in the same way: create a
  shader object per stage, hand it the source text, compile it, query the compile status,
  and on failure fetch the info log into a 512 byte buffer, print it and leave the process
  with status \<open>-3\<close>; then create a program object, attach the stages, link, query the
  link status (same failure handling) and finally delete the shader objects.

  Three copies of that pipeline are embedded here:
  \<^item> \<open>createShaderProgram\<close>, the helper function of the depth-cube example, which
    leaves through \<^verbatim>\<open>exit(-3)\<close>;
  \<^item> steps 6 to 9 of \<open>main\<close> in \<^verbatim>\<open>07_gles_cube/gles_cube.cpp\<close>, which leave
    through \<^verbatim>\<open>return -3\<close>;
  \<^item> the compute-only steps of \<open>main\<close> in \<^verbatim>\<open>x_gles_compute/gles_compute_pure.cpp\<close>.

  The OpenGL ES driver is not part of the repository. It is modelled by a small object
  store (shader and program objects under integer names) whose observable answers, that is
  whether a source text compiles, whether a set of stages links, and what the info logs
  say, are parameters of the model (\<open>driver\<close>).
\<close>

subsection \<open>Data\<close>

text \<open>
  Object names are \<^verbatim>\<open>unsigned int\<close> in the sources; the code only stores them and hands
  them back to the driver, so they are natural numbers here. The \<^verbatim>\<open>int success\<close> that
  the status queries fill in is only ever tested with \<^verbatim>\<open>!success\<close> and is a \<open>bool\<close>.
  Source texts and info logs are C strings, modelled as \<open>string\<close> without the final NUL.
\<close>

type_synonym GLuint = nat

datatype stage_kind = GL_VERTEX_SHADER | GL_FRAGMENT_SHADER | GL_COMPUTE_SHADER

text \<open>What the driver's compiler and linker answer; the code cannot influence it.\<close>

record driver =
  compiles :: "stage_kind \<Rightarrow> string \<Rightarrow> bool"
  compiler_log :: "stage_kind \<Rightarrow> string \<Rightarrow> string"
  links :: "(stage_kind \<times> string) list \<Rightarrow> bool"
  linker_log :: "(stage_kind \<times> string) list \<Rightarrow> string"

record shader_obj =
  sh_type :: stage_kind
  sh_source :: string
  sh_compile_status :: bool
  sh_info_log :: string
  sh_delete_status :: bool

record program_obj =
  pr_attached :: "GLuint list"
  pr_link_status :: bool
  pr_info_log :: string

text \<open>
  Every call into the driver is recorded together with what it returned to the caller, so
  that the order of calls, and which calls never happen, can be stated.
\<close>

datatype gl_call =
    CreateShader stage_kind GLuint
  | ShaderSource GLuint string
  | CompileShader GLuint
  | GetShaderiv_COMPILE_STATUS GLuint bool
  | GetShaderInfoLog GLuint nat string
  | CreateProgram GLuint
  | AttachShader GLuint GLuint
  | LinkProgram GLuint
  | GetProgramiv_LINK_STATUS GLuint bool
  | GetProgramInfoLog GLuint nat string
  | DeleteShader GLuint
  | UseProgram GLuint

text \<open>
  The state the pipeline runs in: the driver's object store of the current context, the
  log of calls made so far, and what the process has written to standard output.
\<close>

record world =
  names_used :: GLuint
  shaders :: "(GLuint \<times> shader_obj) list"
  programs :: "(GLuint \<times> program_obj) list"
  current_program :: GLuint
  calls :: "gl_call list"
  stdout :: string

text \<open>
  A piece of code either falls through with a value (\<open>Ret\<close>) or terminates the process
  with an exit status (\<open>Exit\<close>): \<^verbatim>\<open>exit(-3)\<close> in a helper and \<^verbatim>\<open>return -3\<close> in
  \<open>main\<close> are both \<open>Exit (-3)\<close>.
\<close>

datatype 'a outcome = Ret 'a | Exit int

fun returns_to_caller :: "'a outcome \<Rightarrow> bool" where
  "returns_to_caller (Ret _) = True"
| "returns_to_caller (Exit _) = False"

subsection \<open>The driver calls the pipeline makes\<close>

text \<open>
  Names are handed out by a counter, so a fresh name is never zero and never in use.
  A call on a name that denotes no object is a GL error that leaves the store as it is;
  the pipelines below only ever pass names they have just been given.
\<close>

definition record_call :: "gl_call \<Rightarrow> world \<Rightarrow> world" where
  "record_call c w = w\<lparr>calls := calls w @ [c]\<rparr>"

definition glCreateShader :: "stage_kind \<Rightarrow> world \<Rightarrow> GLuint \<times> world" where
  "glCreateShader k w =
     (let name = Suc (names_used w);
          ob = \<lparr>sh_type = k, sh_source = [], sh_compile_status = False,
                sh_info_log = [], sh_delete_status = False\<rparr>
      in (name, record_call (CreateShader k name)
                  (w\<lparr>names_used := name, shaders := (name, ob) # shaders w\<rparr>)))"

definition glShaderSource :: "GLuint \<Rightarrow> string \<Rightarrow> world \<Rightarrow> world" where
  "glShaderSource sh src w =
     record_call (ShaderSource sh src)
       (case map_of (shaders w) sh of
          None \<Rightarrow> w
        | Some ob \<Rightarrow> w\<lparr>shaders := AList.update sh (ob\<lparr>sh_source := src\<rparr>) (shaders w)\<rparr>)"

definition glCompileShader :: "driver \<Rightarrow> GLuint \<Rightarrow> world \<Rightarrow> world" where
  "glCompileShader drv sh w =
     record_call (CompileShader sh)
       (case map_of (shaders w) sh of
          None \<Rightarrow> w
        | Some ob \<Rightarrow>
            w\<lparr>shaders := AList.update sh
                 (ob\<lparr>sh_compile_status := compiles drv (sh_type ob) (sh_source ob),
                     sh_info_log := compiler_log drv (sh_type ob) (sh_source ob)\<rparr>)
                 (shaders w)\<rparr>)"

definition glGetShaderiv_COMPILE_STATUS :: "GLuint \<Rightarrow> world \<Rightarrow> bool \<times> world" where
  "glGetShaderiv_COMPILE_STATUS sh w =
     (let success = (case map_of (shaders w) sh of
                       None \<Rightarrow> False
                     | Some ob \<Rightarrow> sh_compile_status ob)
      in (success, record_call (GetShaderiv_COMPILE_STATUS sh success) w))"

text \<open>
  The info log is copied into a buffer of \<open>bufSize\<close> bytes and terminated by a NUL
  there, so the caller gets at most \<open>bufSize - 1\<close> characters of it.
\<close>

definition glGetShaderInfoLog :: "GLuint \<Rightarrow> nat \<Rightarrow> world \<Rightarrow> string \<times> world" where
  "glGetShaderInfoLog sh bufSize w =
     (let info = (case map_of (shaders w) sh of
                    None \<Rightarrow> []
                  | Some ob \<Rightarrow> take (bufSize - 1) (sh_info_log ob))
      in (info, record_call (GetShaderInfoLog sh bufSize info) w))"

definition glCreateProgram :: "world \<Rightarrow> GLuint \<times> world" where
  "glCreateProgram w =
     (let name = Suc (names_used w);
          po = \<lparr>pr_attached = [], pr_link_status = False, pr_info_log = []\<rparr>
      in (name, record_call (CreateProgram name)
                  (w\<lparr>names_used := name, programs := (name, po) # programs w\<rparr>)))"

definition glAttachShader :: "GLuint \<Rightarrow> GLuint \<Rightarrow> world \<Rightarrow> world" where
  "glAttachShader prog sh w =
     record_call (AttachShader prog sh)
       (case map_of (programs w) prog of
          None \<Rightarrow> w
        | Some po \<Rightarrow>
            (if map_of (shaders w) sh \<noteq> None \<and> sh \<notin> set (pr_attached po)
             then w\<lparr>programs := AList.update prog
                        (po\<lparr>pr_attached := pr_attached po @ [sh]\<rparr>) (programs w)\<rparr>
             else w))"

definition stage_of :: "world \<Rightarrow> GLuint \<Rightarrow> (stage_kind \<times> string) list" where
  "stage_of w sh =
     (case map_of (shaders w) sh of
        None \<Rightarrow> []
      | Some ob \<Rightarrow> [(sh_type ob, sh_source ob)])"

definition stage_compiled :: "world \<Rightarrow> GLuint \<Rightarrow> bool" where
  "stage_compiled w sh =
     (case map_of (shaders w) sh of
        None \<Rightarrow> False
      | Some ob \<Rightarrow> sh_compile_status ob)"

text \<open>
  Linking fails when an attached stage has not been compiled successfully; otherwise the
  driver's linker decides on the attached stages, in the order of attachment.
\<close>

definition glLinkProgram :: "driver \<Rightarrow> GLuint \<Rightarrow> world \<Rightarrow> world" where
  "glLinkProgram drv prog w =
     record_call (LinkProgram prog)
       (case map_of (programs w) prog of
          None \<Rightarrow> w
        | Some po \<Rightarrow>
            (let stages = concat (map (stage_of w) (pr_attached po))
             in w\<lparr>programs := AList.update prog
                      (po\<lparr>pr_link_status :=
                             (list_all (stage_compiled w) (pr_attached po) \<and> links drv stages),
                          pr_info_log := linker_log drv stages\<rparr>)
                      (programs w)\<rparr>))"

definition glGetProgramiv_LINK_STATUS :: "GLuint \<Rightarrow> world \<Rightarrow> bool \<times> world" where
  "glGetProgramiv_LINK_STATUS prog w =
     (let success = (case map_of (programs w) prog of
                       None \<Rightarrow> False
                     | Some po \<Rightarrow> pr_link_status po)
      in (success, record_call (GetProgramiv_LINK_STATUS prog success) w))"

definition glGetProgramInfoLog :: "GLuint \<Rightarrow> nat \<Rightarrow> world \<Rightarrow> string \<times> world" where
  "glGetProgramInfoLog prog bufSize w =
     (let info = (case map_of (programs w) prog of
                    None \<Rightarrow> []
                  | Some po \<Rightarrow> take (bufSize - 1) (pr_info_log po))
      in (info, record_call (GetProgramInfoLog prog bufSize info) w))"

text \<open>
  Deleting a shader that is still attached to a program only flags it for deletion; the
  program objects are not touched either way.
\<close>

definition glDeleteShader :: "GLuint \<Rightarrow> world \<Rightarrow> world" where
  "glDeleteShader sh w =
     record_call (DeleteShader sh)
       (case map_of (shaders w) sh of
          None \<Rightarrow> w
        | Some ob \<Rightarrow>
            (if list_ex (\<lambda>entry. sh \<in> set (pr_attached (snd entry))) (programs w)
             then w\<lparr>shaders := AList.update sh (ob\<lparr>sh_delete_status := True\<rparr>) (shaders w)\<rparr>
             else w\<lparr>shaders := AList.delete sh (shaders w)\<rparr>))"

text \<open>Installing a program for drawing or dispatch needs a successfully linked program.\<close>

definition glUseProgram :: "GLuint \<Rightarrow> world \<Rightarrow> world" where
  "glUseProgram prog w =
     record_call (UseProgram prog)
       (if prog = 0 then w\<lparr>current_program := 0\<rparr>
        else (case map_of (programs w) prog of
                None \<Rightarrow> w
              | Some po \<Rightarrow> (if pr_link_status po then w\<lparr>current_program := prog\<rparr> else w)))"

definition printf :: "string \<Rightarrow> world \<Rightarrow> world" where
  "printf text w = w\<lparr>stdout := stdout w @ text\<rparr>"

definition newline :: string where
  "newline = [CHR 0x0A]"

subsection \<open>The pipelines\<close>

text \<open>
  \<open>createShaderProgram\<close> of the depth-cube example: vertex stage, fragment stage,
  program, then removal of both stages. Each failure prints its message and calls
  \<^verbatim>\<open>exit(-3)\<close>.
\<close>

definition createShaderProgram ::
    "driver \<Rightarrow> string \<Rightarrow> string \<Rightarrow> world \<Rightarrow> GLuint outcome \<times> world" where
  "createShaderProgram drv vertex_src fragment_src w0 =
     (let (vertex_shader, w1) = glCreateShader GL_VERTEX_SHADER w0;
          w2 = glShaderSource vertex_shader vertex_src w1;
          w3 = glCompileShader drv vertex_shader w2;
          (success, w4) = glGetShaderiv_COMPILE_STATUS vertex_shader w3
      in if \<not> success then
           (let (info, w5) = glGetShaderInfoLog vertex_shader 512 w4
            in (Exit (- 3), printf (''Vertex shader error:'' @ newline @ info @ newline) w5))
         else
           (let (fragment_shader, w5) = glCreateShader GL_FRAGMENT_SHADER w4;
                w6 = glShaderSource fragment_shader fragment_src w5;
                w7 = glCompileShader drv fragment_shader w6;
                (success, w8) = glGetShaderiv_COMPILE_STATUS fragment_shader w7
            in if \<not> success then
                 (let (info, w9) = glGetShaderInfoLog fragment_shader 512 w8
                  in (Exit (- 3),
                      printf (''Fragment shader error:'' @ newline @ info @ newline) w9))
               else
                 (let (shader_program, w9) = glCreateProgram w8;
                      w10 = glAttachShader shader_program vertex_shader w9;
                      w11 = glAttachShader shader_program fragment_shader w10;
                      w12 = glLinkProgram drv shader_program w11;
                      (success, w13) = glGetProgramiv_LINK_STATUS shader_program w12
                  in if \<not> success then
                       (let (info, w14) = glGetProgramInfoLog shader_program 512 w13
                        in (Exit (- 3),
                            printf (''Program error:'' @ newline @ info @ newline) w14))
                     else
                       (let w14 = glDeleteShader vertex_shader w13;
                            w15 = glDeleteShader fragment_shader w14
                        in (Ret shader_program, w15)))))"


text \<open>
  Steps 6 to 9 of \<open>main\<close> in \<^verbatim>\<open>07_gles_cube/gles_cube.cpp\<close>: the same pipeline written
  out inside \<open>main\<close> on the global source texts (parameters here); each failure prints its
  message and leaves \<open>main\<close> with \<^verbatim>\<open>return -3\<close>. Falling through to the vertex buffer
  setup with the program handle is \<open>Ret\<close>. Window and context creation before these steps
  and the drawing after them are not part of the pipeline and are left out.
\<close>

definition gles_cube_main_steps_6_to_9 ::
    "driver \<Rightarrow> string \<Rightarrow> string \<Rightarrow> world \<Rightarrow> GLuint outcome \<times> world" where
  "gles_cube_main_steps_6_to_9 drv vertex_src fragment_src w0 =
     (let (vertex_shader, w1) = glCreateShader GL_VERTEX_SHADER w0;
          w2 = glShaderSource vertex_shader vertex_src w1;
          w3 = glCompileShader drv vertex_shader w2;
          (success, w4) = glGetShaderiv_COMPILE_STATUS vertex_shader w3
      in if \<not> success then
           (let (info, w5) = glGetShaderInfoLog vertex_shader 512 w4
            in (Exit (- 3), printf (''Vertex shader error:'' @ newline @ info @ newline) w5))
         else
           (let (fragment_shader, w5) = glCreateShader GL_FRAGMENT_SHADER w4;
                w6 = glShaderSource fragment_shader fragment_src w5;
                w7 = glCompileShader drv fragment_shader w6;
                (success, w8) = glGetShaderiv_COMPILE_STATUS fragment_shader w7
            in if \<not> success then
                 (let (info, w9) = glGetShaderInfoLog fragment_shader 512 w8
                  in (Exit (- 3),
                      printf (''Fragment shader error:'' @ newline @ info @ newline) w9))
               else
                 (let (shader_program, w9) = glCreateProgram w8;
                      w10 = glAttachShader shader_program vertex_shader w9;
                      w11 = glAttachShader shader_program fragment_shader w10;
                      w12 = glLinkProgram drv shader_program w11;
                      (success, w13) = glGetProgramiv_LINK_STATUS shader_program w12
                  in if \<not> success then
                       (let (info, w14) = glGetProgramInfoLog shader_program 512 w13
                        in (Exit (- 3),
                            printf (''Program error:'' @ newline @ info @ newline) w14))
                     else
                       (let w14 = glDeleteShader vertex_shader w13;
                            w15 = glDeleteShader fragment_shader w14
                        in (Ret shader_program, w15)))))"

text \<open>
  The shader steps of \<open>main\<close> in \<^verbatim>\<open>x_gles_compute/gles_compute_pure.cpp\<close>: one compute
  stage, a program with only that stage attached, then removal of the stage. The EGL setup
  before these steps and the dispatch after them are left out.
\<close>

definition gles_compute_pure_main_shader_steps ::
    "driver \<Rightarrow> string \<Rightarrow> world \<Rightarrow> GLuint outcome \<times> world" where
  "gles_compute_pure_main_shader_steps drv compute_src w0 =
     (let (compute_shader, w1) = glCreateShader GL_COMPUTE_SHADER w0;
          w2 = glShaderSource compute_shader compute_src w1;
          w3 = glCompileShader drv compute_shader w2;
          (success, w4) = glGetShaderiv_COMPILE_STATUS compute_shader w3
      in if \<not> success then
           (let (info, w5) = glGetShaderInfoLog compute_shader 512 w4
            in (Exit (- 3), printf (''Compute shader error:'' @ newline @ info @ newline) w5))
         else
           (let (compute_program, w5) = glCreateProgram w4;
                w6 = glAttachShader compute_program compute_shader w5;
                w7 = glLinkProgram drv compute_program w6;
                (success, w8) = glGetProgramiv_LINK_STATUS compute_program w7
            in if \<not> success then
                 (let (info, w9) = glGetProgramInfoLog compute_program 512 w8
                  in (Exit (- 3), printf (''Program error:'' @ newline @ info @ newline) w9))
               else
                 (let w9 = glDeleteShader compute_shader w8
                  in (Ret compute_program, w9))))"

subsection \<open>Observations on a run\<close>

text \<open>The driver calls made, and the text printed, between two worlds.\<close>

definition issued :: "world \<Rightarrow> world \<Rightarrow> gl_call list" where
  "issued w w' = drop (length (calls w)) (calls w')"

definition printed :: "world \<Rightarrow> world \<Rightarrow> string" where
  "printed w w' = drop (length (stdout w)) (stdout w')"

definition stages_created :: "gl_call list \<Rightarrow> (stage_kind \<times> GLuint) list" where
  "stages_created cs =
     concat (map (\<lambda>c. case c of CreateShader k sh \<Rightarrow> [(k, sh)] | _ \<Rightarrow> []) cs)"

definition stages_compiled :: "gl_call list \<Rightarrow> GLuint list" where
  "stages_compiled cs = concat (map (\<lambda>c. case c of CompileShader sh \<Rightarrow> [sh] | _ \<Rightarrow> []) cs)"

definition stages_deleted :: "gl_call list \<Rightarrow> GLuint list" where
  "stages_deleted cs = concat (map (\<lambda>c. case c of DeleteShader sh \<Rightarrow> [sh] | _ \<Rightarrow> []) cs)"

definition programs_linked :: "gl_call list \<Rightarrow> GLuint list" where
  "programs_linked cs = concat (map (\<lambda>c. case c of LinkProgram p \<Rightarrow> [p] | _ \<Rightarrow> []) cs)"

text \<open>The stage handles a run created and did not hand to \<open>glDeleteShader\<close>.\<close>

definition stages_leaked :: "gl_call list \<Rightarrow> GLuint list" where
  "stages_leaked cs =
     filter (\<lambda>sh. sh \<notin> set (stages_deleted cs)) (map snd (stages_created cs))"

text \<open>In the store, a released stage is gone or flagged for deletion.\<close>

definition stage_released :: "world \<Rightarrow> GLuint \<Rightarrow> bool" where
  "stage_released w sh =
     (case map_of (shaders w) sh of
        None \<Rightarrow> True
      | Some ob \<Rightarrow> sh_delete_status ob)"

definition shader_logs_read :: "gl_call list \<Rightarrow> GLuint list" where
  "shader_logs_read cs =
     concat (map (\<lambda>c. case c of GetShaderInfoLog sh n info \<Rightarrow> [sh] | _ \<Rightarrow> []) cs)"

definition program_logs_read :: "gl_call list \<Rightarrow> GLuint list" where
  "program_logs_read cs =
     concat (map (\<lambda>c. case c of GetProgramInfoLog p n info \<Rightarrow> [p] | _ \<Rightarrow> []) cs)"

definition failed_compile_queries :: "gl_call list \<Rightarrow> GLuint list" where
  "failed_compile_queries cs =
     concat (map (\<lambda>c. case c of
                         GetShaderiv_COMPILE_STATUS sh ok \<Rightarrow> (if ok then [] else [sh])
                       | _ \<Rightarrow> []) cs)"

definition failed_link_queries :: "gl_call list \<Rightarrow> GLuint list" where
  "failed_link_queries cs =
     concat (map (\<lambda>c. case c of
                         GetProgramiv_LINK_STATUS p ok \<Rightarrow> (if ok then [] else [p])
                       | _ \<Rightarrow> []) cs)"

text \<open>The diagnostic texts a run fetched from the driver, in order.\<close>

definition diagnostics :: "gl_call list \<Rightarrow> string list" where
  "diagnostics cs =
     concat (map (\<lambda>c. case c of
                         GetShaderInfoLog sh n info \<Rightarrow> [info]
                       | GetProgramInfoLog p n info \<Rightarrow> [info]
                       | _ \<Rightarrow> []) cs)"

definition program_linked :: "world \<Rightarrow> GLuint \<Rightarrow> bool" where
  "program_linked w p =
     (case map_of (programs w) p of
        None \<Rightarrow> False
      | Some po \<Rightarrow> pr_link_status po)"

subsection \<open>A fresh context and some drivers to run the pipelines on\<close>

definition fresh_context :: world where
  "fresh_context =
     \<lparr>names_used = 0, shaders = [], programs = [], current_program = 0,
      calls = [], stdout = []\<rparr>"

text \<open>
  A driver that rejects exactly the listed source texts, links or not as told, and answers
  every compile with the one log text and every link with the other.
\<close>

definition sample_driver :: "string list \<Rightarrow> bool \<Rightarrow> string \<Rightarrow> string \<Rightarrow> driver" where
  "sample_driver rejected link_ok clog llog =
     \<lparr>compiles = (\<lambda>k src. src \<notin> set rejected),
      compiler_log = (\<lambda>k src. clog),
      links = (\<lambda>stages. link_ok),
      linker_log = (\<lambda>stages. llog)\<rparr>"

section \<open>What each pipeline does, case by case\<close>

lemmas gl_defs =
  record_call_def glCreateShader_def glShaderSource_def glCompileShader_def
  glGetShaderiv_COMPILE_STATUS_def glGetShaderInfoLog_def glCreateProgram_def
  glAttachShader_def glLinkProgram_def glGetProgramiv_LINK_STATUS_def
  glGetProgramInfoLog_def glDeleteShader_def printf_def stage_of_def stage_compiled_def

lemmas observation_defs =
  issued_def printed_def stages_created_def stages_compiled_def stages_deleted_def
  programs_linked_def stages_leaked_def stage_released_def shader_logs_read_def
  program_logs_read_def failed_compile_queries_def failed_link_queries_def
  diagnostics_def program_linked_def

lemma createShaderProgram_vertex_fails:
  assumes "\<not> compiles drv GL_VERTEX_SHADER v"
  shows "createShaderProgram drv v f w =
     (Exit (- 3),
      w\<lparr>names_used := Suc (names_used w),
        shaders :=
          (Suc (names_used w),
           \<lparr>sh_type = GL_VERTEX_SHADER, sh_source = v, sh_compile_status = False,
             sh_info_log = compiler_log drv GL_VERTEX_SHADER v,
             sh_delete_status = False\<rparr>) # shaders w,
        calls := calls w @
          [CreateShader GL_VERTEX_SHADER (Suc (names_used w)),
           ShaderSource (Suc (names_used w)) v,
           CompileShader (Suc (names_used w)),
           GetShaderiv_COMPILE_STATUS (Suc (names_used w)) False,
           GetShaderInfoLog (Suc (names_used w)) 512
             (take 511 (compiler_log drv GL_VERTEX_SHADER v))],
        stdout := stdout w @ ''Vertex shader error:'' @ newline @
                  take 511 (compiler_log drv GL_VERTEX_SHADER v) @ newline\<rparr>)"
  using assms by (simp add: createShaderProgram_def gl_defs Let_def)

lemma createShaderProgram_fragment_fails:
  assumes "compiles drv GL_VERTEX_SHADER v" and "\<not> compiles drv GL_FRAGMENT_SHADER f"
  shows "createShaderProgram drv v f w =
     (Exit (- 3),
      w\<lparr>names_used := Suc (Suc (names_used w)),
        shaders :=
          (Suc (Suc (names_used w)),
           \<lparr>sh_type = GL_FRAGMENT_SHADER, sh_source = f, sh_compile_status = False,
             sh_info_log = compiler_log drv GL_FRAGMENT_SHADER f,
             sh_delete_status = False\<rparr>) #
          (Suc (names_used w),
           \<lparr>sh_type = GL_VERTEX_SHADER, sh_source = v, sh_compile_status = True,
             sh_info_log = compiler_log drv GL_VERTEX_SHADER v,
             sh_delete_status = False\<rparr>) # shaders w,
        calls := calls w @
          [CreateShader GL_VERTEX_SHADER (Suc (names_used w)),
           ShaderSource (Suc (names_used w)) v,
           CompileShader (Suc (names_used w)),
           GetShaderiv_COMPILE_STATUS (Suc (names_used w)) True,
           CreateShader GL_FRAGMENT_SHADER (Suc (Suc (names_used w))),
           ShaderSource (Suc (Suc (names_used w))) f,
           CompileShader (Suc (Suc (names_used w))),
           GetShaderiv_COMPILE_STATUS (Suc (Suc (names_used w))) False,
           GetShaderInfoLog (Suc (Suc (names_used w))) 512
             (take 511 (compiler_log drv GL_FRAGMENT_SHADER f))],
        stdout := stdout w @ ''Fragment shader error:'' @ newline @
                  take 511 (compiler_log drv GL_FRAGMENT_SHADER f) @ newline\<rparr>)"
  using assms by (simp add: createShaderProgram_def gl_defs Let_def)

lemma createShaderProgram_link_fails:
  assumes "compiles drv GL_VERTEX_SHADER v" and "compiles drv GL_FRAGMENT_SHADER f"
    and "\<not> links drv [(GL_VERTEX_SHADER, v), (GL_FRAGMENT_SHADER, f)]"
  shows "createShaderProgram drv v f w =
     (Exit (- 3),
      w\<lparr>names_used := Suc (Suc (Suc (names_used w))),
        shaders :=
          (Suc (Suc (names_used w)),
           \<lparr>sh_type = GL_FRAGMENT_SHADER, sh_source = f, sh_compile_status = True,
             sh_info_log = compiler_log drv GL_FRAGMENT_SHADER f,
             sh_delete_status = False\<rparr>) #
          (Suc (names_used w),
           \<lparr>sh_type = GL_VERTEX_SHADER, sh_source = v, sh_compile_status = True,
             sh_info_log = compiler_log drv GL_VERTEX_SHADER v,
             sh_delete_status = False\<rparr>) # shaders w,
        programs :=
          (Suc (Suc (Suc (names_used w))),
           \<lparr>pr_attached = [Suc (names_used w), Suc (Suc (names_used w))],
             pr_link_status = False,
             pr_info_log =
               linker_log drv [(GL_VERTEX_SHADER, v), (GL_FRAGMENT_SHADER, f)]\<rparr>) #
          programs w,
        calls := calls w @
          [CreateShader GL_VERTEX_SHADER (Suc (names_used w)),
           ShaderSource (Suc (names_used w)) v,
           CompileShader (Suc (names_used w)),
           GetShaderiv_COMPILE_STATUS (Suc (names_used w)) True,
           CreateShader GL_FRAGMENT_SHADER (Suc (Suc (names_used w))),
           ShaderSource (Suc (Suc (names_used w))) f,
           CompileShader (Suc (Suc (names_used w))),
           GetShaderiv_COMPILE_STATUS (Suc (Suc (names_used w))) True,
           CreateProgram (Suc (Suc (Suc (names_used w)))),
           AttachShader (Suc (Suc (Suc (names_used w)))) (Suc (names_used w)),
           AttachShader (Suc (Suc (Suc (names_used w)))) (Suc (Suc (names_used w))),
           LinkProgram (Suc (Suc (Suc (names_used w)))),
           GetProgramiv_LINK_STATUS (Suc (Suc (Suc (names_used w)))) False,
           GetProgramInfoLog (Suc (Suc (Suc (names_used w)))) 512
             (take 511 (linker_log drv [(GL_VERTEX_SHADER, v), (GL_FRAGMENT_SHADER, f)]))],
        stdout := stdout w @ ''Program error:'' @ newline @
                  take 511 (linker_log drv [(GL_VERTEX_SHADER, v), (GL_FRAGMENT_SHADER, f)]) @
                  newline\<rparr>)"
  using assms by (simp add: createShaderProgram_def gl_defs Let_def)

lemma createShaderProgram_succeeds:
  assumes "compiles drv GL_VERTEX_SHADER v" and "compiles drv GL_FRAGMENT_SHADER f"
    and "links drv [(GL_VERTEX_SHADER, v), (GL_FRAGMENT_SHADER, f)]"
  shows "createShaderProgram drv v f w =
     (Ret (Suc (Suc (Suc (names_used w)))),
      w\<lparr>names_used := Suc (Suc (Suc (names_used w))),
        shaders :=
          (Suc (Suc (names_used w)),
           \<lparr>sh_type = GL_FRAGMENT_SHADER, sh_source = f, sh_compile_status = True,
             sh_info_log = compiler_log drv GL_FRAGMENT_SHADER f,
             sh_delete_status = True\<rparr>) #
          (Suc (names_used w),
           \<lparr>sh_type = GL_VERTEX_SHADER, sh_source = v, sh_compile_status = True,
             sh_info_log = compiler_log drv GL_VERTEX_SHADER v,
             sh_delete_status = True\<rparr>) # shaders w,
        programs :=
          (Suc (Suc (Suc (names_used w))),
           \<lparr>pr_attached = [Suc (names_used w), Suc (Suc (names_used w))],
             pr_link_status = True,
             pr_info_log =
               linker_log drv [(GL_VERTEX_SHADER, v), (GL_FRAGMENT_SHADER, f)]\<rparr>) #
          programs w,
        calls := calls w @
          [CreateShader GL_VERTEX_SHADER (Suc (names_used w)),
           ShaderSource (Suc (names_used w)) v,
           CompileShader (Suc (names_used w)),
           GetShaderiv_COMPILE_STATUS (Suc (names_used w)) True,
           CreateShader GL_FRAGMENT_SHADER (Suc (Suc (names_used w))),
           ShaderSource (Suc (Suc (names_used w))) f,
           CompileShader (Suc (Suc (names_used w))),
           GetShaderiv_COMPILE_STATUS (Suc (Suc (names_used w))) True,
           CreateProgram (Suc (Suc (Suc (names_used w)))),
           AttachShader (Suc (Suc (Suc (names_used w)))) (Suc (names_used w)),
           AttachShader (Suc (Suc (Suc (names_used w)))) (Suc (Suc (names_used w))),
           LinkProgram (Suc (Suc (Suc (names_used w)))),
           GetProgramiv_LINK_STATUS (Suc (Suc (Suc (names_used w)))) True,
           DeleteShader (Suc (names_used w)),
           DeleteShader (Suc (Suc (names_used w)))]\<rparr>)"
  using assms by (simp add: createShaderProgram_def gl_defs Let_def)

text \<open>The copy inside \<open>main\<close> of the cube example is the same pipeline.\<close>

lemma gles_cube_main_is_createShaderProgram:
  "gles_cube_main_steps_6_to_9 drv v f w = createShaderProgram drv v f w"
  by (simp only: gles_cube_main_steps_6_to_9_def createShaderProgram_def)

lemma compute_steps_compile_fails:
  assumes "\<not> compiles drv GL_COMPUTE_SHADER c"
  shows "gles_compute_pure_main_shader_steps drv c w =
     (Exit (- 3),
      w\<lparr>names_used := Suc (names_used w),
        shaders :=
          (Suc (names_used w),
           \<lparr>sh_type = GL_COMPUTE_SHADER, sh_source = c, sh_compile_status = False,
             sh_info_log = compiler_log drv GL_COMPUTE_SHADER c,
             sh_delete_status = False\<rparr>) # shaders w,
        calls := calls w @
          [CreateShader GL_COMPUTE_SHADER (Suc (names_used w)),
           ShaderSource (Suc (names_used w)) c,
           CompileShader (Suc (names_used w)),
           GetShaderiv_COMPILE_STATUS (Suc (names_used w)) False,
           GetShaderInfoLog (Suc (names_used w)) 512
             (take 511 (compiler_log drv GL_COMPUTE_SHADER c))],
        stdout := stdout w @ ''Compute shader error:'' @ newline @
                  take 511 (compiler_log drv GL_COMPUTE_SHADER c) @ newline\<rparr>)"
  using assms by (simp add: gles_compute_pure_main_shader_steps_def gl_defs Let_def)

lemma compute_steps_link_fails:
  assumes "compiles drv GL_COMPUTE_SHADER c" and "\<not> links drv [(GL_COMPUTE_SHADER, c)]"
  shows "gles_compute_pure_main_shader_steps drv c w =
     (Exit (- 3),
      w\<lparr>names_used := Suc (Suc (names_used w)),
        shaders :=
          (Suc (names_used w),
           \<lparr>sh_type = GL_COMPUTE_SHADER, sh_source = c, sh_compile_status = True,
             sh_info_log = compiler_log drv GL_COMPUTE_SHADER c,
             sh_delete_status = False\<rparr>) # shaders w,
        programs :=
          (Suc (Suc (names_used w)),
           \<lparr>pr_attached = [Suc (names_used w)], pr_link_status = False,
             pr_info_log = linker_log drv [(GL_COMPUTE_SHADER, c)]\<rparr>) # programs w,
        calls := calls w @
          [CreateShader GL_COMPUTE_SHADER (Suc (names_used w)),
           ShaderSource (Suc (names_used w)) c,
           CompileShader (Suc (names_used w)),
           GetShaderiv_COMPILE_STATUS (Suc (names_used w)) True,
           CreateProgram (Suc (Suc (names_used w))),
           AttachShader (Suc (Suc (names_used w))) (Suc (names_used w)),
           LinkProgram (Suc (Suc (names_used w))),
           GetProgramiv_LINK_STATUS (Suc (Suc (names_used w))) False,
           GetProgramInfoLog (Suc (Suc (names_used w))) 512
             (take 511 (linker_log drv [(GL_COMPUTE_SHADER, c)]))],
        stdout := stdout w @ ''Program error:'' @ newline @
                  take 511 (linker_log drv [(GL_COMPUTE_SHADER, c)]) @ newline\<rparr>)"
  using assms by (simp add: gles_compute_pure_main_shader_steps_def gl_defs Let_def)

lemma compute_steps_succeed:
  assumes "compiles drv GL_COMPUTE_SHADER c" and "links drv [(GL_COMPUTE_SHADER, c)]"
  shows "gles_compute_pure_main_shader_steps drv c w =
     (Ret (Suc (Suc (names_used w))),
      w\<lparr>names_used := Suc (Suc (names_used w)),
        shaders :=
          (Suc (names_used w),
           \<lparr>sh_type = GL_COMPUTE_SHADER, sh_source = c, sh_compile_status = True,
             sh_info_log = compiler_log drv GL_COMPUTE_SHADER c,
             sh_delete_status = True\<rparr>) # shaders w,
        programs :=
          (Suc (Suc (names_used w)),
           \<lparr>pr_attached = [Suc (names_used w)], pr_link_status = True,
             pr_info_log = linker_log drv [(GL_COMPUTE_SHADER, c)]\<rparr>) # programs w,
        calls := calls w @
          [CreateShader GL_COMPUTE_SHADER (Suc (names_used w)),
           ShaderSource (Suc (names_used w)) c,
           CompileShader (Suc (names_used w)),
           GetShaderiv_COMPILE_STATUS (Suc (names_used w)) True,
           CreateProgram (Suc (Suc (names_used w))),
           AttachShader (Suc (Suc (names_used w))) (Suc (names_used w)),
           LinkProgram (Suc (Suc (names_used w))),
           GetProgramiv_LINK_STATUS (Suc (Suc (names_used w))) True,
           DeleteShader (Suc (names_used w))]\<rparr>)"
  using assms by (simp add: gles_compute_pure_main_shader_steps_def gl_defs Let_def)

text \<open>The four ways through the two-stage pipeline.\<close>

lemma createShaderProgram_cases:
  obtains (vertex_fails) "\<not> compiles drv GL_VERTEX_SHADER v"
  | (fragment_fails) "compiles drv GL_VERTEX_SHADER v" "\<not> compiles drv GL_FRAGMENT_SHADER f"
  | (link_fails) "compiles drv GL_VERTEX_SHADER v" "compiles drv GL_FRAGMENT_SHADER f"
      "\<not> links drv [(GL_VERTEX_SHADER, v), (GL_FRAGMENT_SHADER, f)]"
  | (succeeds) "compiles drv GL_VERTEX_SHADER v" "compiles drv GL_FRAGMENT_SHADER f"
      "links drv [(GL_VERTEX_SHADER, v), (GL_FRAGMENT_SHADER, f)]"
  by blast


lemma two_stage_build:
  assumes "build \<in> {createShaderProgram, gles_cube_main_steps_6_to_9}"
  shows "build = createShaderProgram"
proof -
  have "gles_cube_main_steps_6_to_9 = createShaderProgram"
    by (intro ext) (rule gles_cube_main_is_createShaderProgram)
  with assms show ?thesis by auto
qed

section \<open>The claims\<close>

text \<open>
  C1 (as amended). Claimed: once linking has been attempted, every compiled-stage handle is
  released before the operation returns, on the success path and on the link-failure path
  alike. The code releases the stages only after the link status has been found good:
  whenever the pipeline falls through with a program, a link was attempted, every stage it
  created has been handed to \<open>glDeleteShader\<close> and is flagged for deletion in the store.
  Whenever it fails (in either compile or in the link) it leaves the process with status
  \<open>-3\<close> without a single \<open>glDeleteShader\<close>, so every stage it created is still held.
\<close>

theorem C1_stages_released_on_success_only:
  assumes "build \<in> {createShaderProgram, gles_cube_main_steps_6_to_9}"
  shows "case build drv v f w of (result, w') \<Rightarrow>
           (returns_to_caller result \<longrightarrow>
              programs_linked (issued w w') \<noteq> [] \<and>
              stages_leaked (issued w w') = [] \<and>
              list_all (stage_released w') (map snd (stages_created (issued w w')))) \<and>
           (\<not> returns_to_caller result \<longrightarrow>
              result = Exit (- 3) \<and>
              stages_deleted (issued w w') = [] \<and>
              stages_leaked (issued w w') = map snd (stages_created (issued w w')) \<and>
              stages_leaked (issued w w') \<noteq> [])"
proof -
  have b: "build = createShaderProgram" using assms by (rule two_stage_build)
  show ?thesis
  proof (cases rule: createShaderProgram_cases [where drv = drv and v = v and f = f])
    case vertex_fails
    then show ?thesis unfolding b
      by (simp add: createShaderProgram_vertex_fails observation_defs)
  next
    case fragment_fails
    then show ?thesis unfolding b
      by (simp add: createShaderProgram_fragment_fails observation_defs)
  next
    case link_fails
    then show ?thesis unfolding b
      by (simp add: createShaderProgram_link_fails observation_defs)
  next
    case succeeds
    then show ?thesis unfolding b
      by (simp add: createShaderProgram_succeeds observation_defs)
  qed
qed

theorem C1_witness:
  "gles_cube_main_steps_6_to_9 \<in> {createShaderProgram, gles_cube_main_steps_6_to_9} \<and>
   (case gles_cube_main_steps_6_to_9 (sample_driver [] True [] []) ''v'' ''f'' fresh_context of
      (result, w') \<Rightarrow>
        returns_to_caller result \<and> stages_leaked (issued fresh_context w') = [] \<and>
        stage_released w' 1 \<and> stage_released w' 2) \<and>
   (case gles_cube_main_steps_6_to_9 (sample_driver [''f''] True [] []) ''v'' ''f'' fresh_context of
      (result, w') \<Rightarrow>
        \<not> returns_to_caller result \<and> result = Exit (- 3) \<and> stages_deleted (issued fresh_context w') = [])"
  using C1_stages_released_on_success_only
          [where build = gles_cube_main_steps_6_to_9 and drv = "sample_driver [] True [] []"
             and v = "''v''" and f = "''f''" and w = fresh_context]
        C1_stages_released_on_success_only
          [where build = gles_cube_main_steps_6_to_9 and drv = "sample_driver [''f''] True [] []"
             and v = "''v''" and f = "''f''" and w = fresh_context]
  by (simp add: gles_cube_main_is_createShaderProgram createShaderProgram_succeeds
        createShaderProgram_fragment_fails sample_driver_def fresh_context_def observation_defs)

theorem C1_counterexample:
  "programs_linked (issued fresh_context
       (snd (createShaderProgram (sample_driver [] False [] ''error: varying mismatch'')
               ''v'' ''f'' fresh_context))) = [3] \<and>
   stages_leaked (issued fresh_context
       (snd (createShaderProgram (sample_driver [] False [] ''error: varying mismatch'')
               ''v'' ''f'' fresh_context))) = [1, 2] \<and>
   \<not> stage_released
       (snd (createShaderProgram (sample_driver [] False [] ''error: varying mismatch'')
               ''v'' ''f'' fresh_context)) 1 \<and>
   \<not> stage_released
       (snd (createShaderProgram (sample_driver [] False [] ''error: varying mismatch'')
               ''v'' ''f'' fresh_context)) 2"
  by (simp add: createShaderProgram_link_fails sample_driver_def fresh_context_def
        observation_defs)

text \<open>
  C2 (as amended). Claimed: when the vertex stage fails to compile, the build stops there,
  reports the failure with the Vertex stage kind and a non-empty diagnostic log, never
  compiles the fragment stage and never links. The code does all of that except that it
  cannot promise a non-empty log: it reports under the heading \<open>Vertex shader error:\<close>
  the first 511 characters of whatever log the driver holds, which is non-empty exactly when
  the driver's log is. The only stage created and compiled is the vertex stage, no program
  is linked, and the process ends with status \<open>-3\<close>.
\<close>

theorem C2_vertex_failure_short_circuits:
  assumes "build \<in> {createShaderProgram, gles_cube_main_steps_6_to_9}"
    and "\<not> compiles drv GL_VERTEX_SHADER v"
  shows "case build drv v f w of (result, w') \<Rightarrow>
           result = Exit (- 3) \<and>
           issued w w' =
             [CreateShader GL_VERTEX_SHADER (Suc (names_used w)),
              ShaderSource (Suc (names_used w)) v,
              CompileShader (Suc (names_used w)),
              GetShaderiv_COMPILE_STATUS (Suc (names_used w)) False,
              GetShaderInfoLog (Suc (names_used w)) 512
                (take 511 (compiler_log drv GL_VERTEX_SHADER v))] \<and>
           printed w w' =
             ''Vertex shader error:'' @ newline @
             take 511 (compiler_log drv GL_VERTEX_SHADER v) @ newline \<and>
           stages_created (issued w w') = [(GL_VERTEX_SHADER, Suc (names_used w))] \<and>
           stages_compiled (issued w w') = [Suc (names_used w)] \<and>
           programs_linked (issued w w') = [] \<and>
           diagnostics (issued w w') = [take 511 (compiler_log drv GL_VERTEX_SHADER v)] \<and>
           (take 511 (compiler_log drv GL_VERTEX_SHADER v) = []) =
             (compiler_log drv GL_VERTEX_SHADER v = [])"
  using assms(2) unfolding two_stage_build [OF assms(1)]
  by (simp add: createShaderProgram_vertex_fails observation_defs)

theorem C2_witness:
  "createShaderProgram \<in> {createShaderProgram, gles_cube_main_steps_6_to_9} \<and>
   \<not> compiles (sample_driver [''void main( {''] True ''0:1: syntax error'' [])
        GL_VERTEX_SHADER ''void main( {'' \<and>
   (case createShaderProgram (sample_driver [''void main( {''] True ''0:1: syntax error'' [])
           ''void main( {'' ''void main() {}'' fresh_context of
      (result, w') \<Rightarrow>
        result = Exit (- 3) \<and>
        issued fresh_context w' =
          [CreateShader GL_VERTEX_SHADER 1, ShaderSource 1 ''void main( {'', CompileShader 1,
           GetShaderiv_COMPILE_STATUS 1 False, GetShaderInfoLog 1 512 ''0:1: syntax error''] \<and>
        printed fresh_context w' =
          ''Vertex shader error:'' @ newline @ ''0:1: syntax error'' @ newline)"
  using C2_vertex_failure_short_circuits
          [where build = createShaderProgram
             and drv = "sample_driver [''void main( {''] True ''0:1: syntax error'' []"
             and v = "''void main( {''" and f = "''void main() {}''" and w = fresh_context]
  by (simp add: sample_driver_def fresh_context_def case_prod_beta)

theorem C2_counterexample:
  "\<not> compiles (sample_driver [''void main( {''] True [] []) GL_VERTEX_SHADER ''void main( {'' \<and>
   fst (createShaderProgram (sample_driver [''void main( {''] True [] [])
          ''void main( {'' ''void main() {}'' fresh_context) = Exit (- 3) \<and>
   diagnostics (issued fresh_context
     (snd (createShaderProgram (sample_driver [''void main( {''] True [] [])
             ''void main( {'' ''void main() {}'' fresh_context))) = [[]] \<and>
   printed fresh_context
     (snd (createShaderProgram (sample_driver [''void main( {''] True [] [])
             ''void main( {'' ''void main() {}'' fresh_context)) =
     ''Vertex shader error:'' @ newline @ newline"
  by (simp add: createShaderProgram_vertex_fails sample_driver_def fresh_context_def
        observation_defs)

text \<open>
  C3. When both stages compile and the driver reports a non-success link status, the build
  fails and the failure carries the linker's diagnostic log: the text fetched from the
  driver (through the 512 byte buffer) is printed under the heading \<open>Program error:\<close> and
  the process ends with status \<open>-3\<close>. Both stages have been compiled, with a good
  status, before the link is attempted and the failure reported.
\<close>

theorem C3_link_failure_reported:
  assumes "build \<in> {createShaderProgram, gles_cube_main_steps_6_to_9}"
    and "compiles drv GL_VERTEX_SHADER v" and "compiles drv GL_FRAGMENT_SHADER f"
    and "\<not> links drv [(GL_VERTEX_SHADER, v), (GL_FRAGMENT_SHADER, f)]"
  shows "case build drv v f w of (result, w') \<Rightarrow>
           result = Exit (- 3) \<and>
           issued w w' =
             [CreateShader GL_VERTEX_SHADER (Suc (names_used w)),
              ShaderSource (Suc (names_used w)) v,
              CompileShader (Suc (names_used w)),
              GetShaderiv_COMPILE_STATUS (Suc (names_used w)) True,
              CreateShader GL_FRAGMENT_SHADER (Suc (Suc (names_used w))),
              ShaderSource (Suc (Suc (names_used w))) f,
              CompileShader (Suc (Suc (names_used w))),
              GetShaderiv_COMPILE_STATUS (Suc (Suc (names_used w))) True,
              CreateProgram (Suc (Suc (Suc (names_used w)))),
              AttachShader (Suc (Suc (Suc (names_used w)))) (Suc (names_used w)),
              AttachShader (Suc (Suc (Suc (names_used w)))) (Suc (Suc (names_used w))),
              LinkProgram (Suc (Suc (Suc (names_used w)))),
              GetProgramiv_LINK_STATUS (Suc (Suc (Suc (names_used w)))) False,
              GetProgramInfoLog (Suc (Suc (Suc (names_used w)))) 512
                (take 511
                   (linker_log drv [(GL_VERTEX_SHADER, v), (GL_FRAGMENT_SHADER, f)]))] \<and>
           printed w w' =
             ''Program error:'' @ newline @
             take 511 (linker_log drv [(GL_VERTEX_SHADER, v), (GL_FRAGMENT_SHADER, f)]) @
             newline \<and>
           diagnostics (issued w w') =
             [take 511 (linker_log drv [(GL_VERTEX_SHADER, v), (GL_FRAGMENT_SHADER, f)])] \<and>
           stage_compiled w' (Suc (names_used w)) \<and>
           stage_compiled w' (Suc (Suc (names_used w))) \<and>
           \<not> program_linked w' (Suc (Suc (Suc (names_used w))))"
  using assms(2-) unfolding two_stage_build [OF assms(1)]
  by (simp add: createShaderProgram_link_fails observation_defs stage_compiled_def)

theorem C3_witness:
  "gles_cube_main_steps_6_to_9 \<in> {createShaderProgram, gles_cube_main_steps_6_to_9} \<and>
   compiles (sample_driver [] False [] ''error: varying vTex not written'')
     GL_VERTEX_SHADER ''v'' \<and>
   compiles (sample_driver [] False [] ''error: varying vTex not written'')
     GL_FRAGMENT_SHADER ''f'' \<and>
   \<not> links (sample_driver [] False [] ''error: varying vTex not written'')
       [(GL_VERTEX_SHADER, ''v''), (GL_FRAGMENT_SHADER, ''f'')] \<and>
   (case gles_cube_main_steps_6_to_9
           (sample_driver [] False [] ''error: varying vTex not written'')
           ''v'' ''f'' fresh_context of
      (result, w') \<Rightarrow>
        result = Exit (- 3) \<and>
        printed fresh_context w' =
          ''Program error:'' @ newline @ ''error: varying vTex not written'' @ newline \<and>
        stages_compiled (issued fresh_context w') = [1, 2] \<and>
        diagnostics (issued fresh_context w') = [''error: varying vTex not written''])"
  using C3_link_failure_reported
          [where build = gles_cube_main_steps_6_to_9
             and drv = "sample_driver [] False [] ''error: varying vTex not written''"
             and v = "''v''" and f = "''f''" and w = fresh_context]
  by (simp add: sample_driver_def fresh_context_def stages_compiled_def diagnostics_def
        case_prod_beta)

text \<open>
  C4 (as amended). Claimed: every failure is handed to the immediate caller as a typed
  result and the caller decides whether it is fatal. In the code the pipeline itself ends
  the process: it returns to its caller exactly when both stages compile and the program
  links, and then with the handle of the linked program and nothing printed; on every
  failure it prints one diagnostic and leaves with status \<open>-3\<close>, so no failure ever reaches
  a caller.
\<close>

theorem C4_failure_ends_process_inside_builder:
  assumes "build \<in> {createShaderProgram, gles_cube_main_steps_6_to_9}"
  shows "case build drv v f w of (result, w') \<Rightarrow>
           returns_to_caller result =
             (compiles drv GL_VERTEX_SHADER v \<and> compiles drv GL_FRAGMENT_SHADER f \<and>
              links drv [(GL_VERTEX_SHADER, v), (GL_FRAGMENT_SHADER, f)]) \<and>
           (returns_to_caller result \<longrightarrow>
              result = Ret (Suc (Suc (Suc (names_used w)))) \<and>
              program_linked w' (Suc (Suc (Suc (names_used w)))) \<and>
              printed w w' = []) \<and>
           (\<not> returns_to_caller result \<longrightarrow>
              result = Exit (- 3) \<and> length (diagnostics (issued w w')) = 1 \<and>
              printed w w' \<noteq> [])"
proof -
  have b: "build = createShaderProgram" using assms by (rule two_stage_build)
  show ?thesis
  proof (cases rule: createShaderProgram_cases [where drv = drv and v = v and f = f])
    case vertex_fails
    then show ?thesis unfolding b
      by (simp add: createShaderProgram_vertex_fails observation_defs)
  next
    case fragment_fails
    then show ?thesis unfolding b
      by (simp add: createShaderProgram_fragment_fails observation_defs)
  next
    case link_fails
    then show ?thesis unfolding b
      by (simp add: createShaderProgram_link_fails observation_defs)
  next
    case succeeds
    then show ?thesis unfolding b
      by (simp add: createShaderProgram_succeeds observation_defs)
  qed
qed

theorem C4_witness:
  "createShaderProgram \<in> {createShaderProgram, gles_cube_main_steps_6_to_9} \<and>
   (case createShaderProgram (sample_driver [] True [] []) ''v'' ''f'' fresh_context of
      (result, w') \<Rightarrow> returns_to_caller result \<and> result = Ret 3 \<and> program_linked w' 3) \<and>
   (case createShaderProgram (sample_driver [''v''] True ''0:1: error'' []) ''v'' ''f''
           fresh_context of
      (result, w') \<Rightarrow> \<not> returns_to_caller result \<and> result = Exit (- 3))"
  using C4_failure_ends_process_inside_builder
          [where build = createShaderProgram and drv = "sample_driver [] True [] []"
             and v = "''v''" and f = "''f''" and w = fresh_context]
        C4_failure_ends_process_inside_builder
          [where build = createShaderProgram
             and drv = "sample_driver [''v''] True ''0:1: error'' []"
             and v = "''v''" and f = "''f''" and w = fresh_context]
  by (simp add: sample_driver_def fresh_context_def case_prod_beta numeral_3_eq_3)

theorem C4_counterexample:
  "\<not> compiles (sample_driver [''f''] True ''0:3: undeclared identifier'' [])
        GL_FRAGMENT_SHADER ''f'' \<and>
   \<not> returns_to_caller
        (fst (createShaderProgram (sample_driver [''f''] True ''0:3: undeclared identifier'' [])
                ''v'' ''f'' fresh_context)) \<and>
   fst (createShaderProgram (sample_driver [''f''] True ''0:3: undeclared identifier'' [])
          ''v'' ''f'' fresh_context) = Exit (- 3)"
  by (simp add: createShaderProgram_fragment_fails sample_driver_def)



text \<open>
  C6. The compute example builds its program from a single compute stage: when the compute
  source compiles and the one-stage program links, the steps fall through with a linked
  program; the only stage ever created is the compute stage, the program has exactly that
  stage attached, and no vertex or fragment stage is asked for.
\<close>

theorem C6_compute_only_build:
  assumes "compiles drv GL_COMPUTE_SHADER c" and "links drv [(GL_COMPUTE_SHADER, c)]"
  shows "case gles_compute_pure_main_shader_steps drv c w of (result, w') \<Rightarrow>
           result = Ret (Suc (Suc (names_used w))) \<and>
           issued w w' =
             [CreateShader GL_COMPUTE_SHADER (Suc (names_used w)),
              ShaderSource (Suc (names_used w)) c,
              CompileShader (Suc (names_used w)),
              GetShaderiv_COMPILE_STATUS (Suc (names_used w)) True,
              CreateProgram (Suc (Suc (names_used w))),
              AttachShader (Suc (Suc (names_used w))) (Suc (names_used w)),
              LinkProgram (Suc (Suc (names_used w))),
              GetProgramiv_LINK_STATUS (Suc (Suc (names_used w))) True,
              DeleteShader (Suc (names_used w))] \<and>
           stages_created (issued w w') = [(GL_COMPUTE_SHADER, Suc (names_used w))] \<and>
           map_of (programs w') (Suc (Suc (names_used w))) =
             Some \<lparr>pr_attached = [Suc (names_used w)], pr_link_status = True,
                   pr_info_log = linker_log drv [(GL_COMPUTE_SHADER, c)]\<rparr> \<and>
           program_linked w' (Suc (Suc (names_used w))) \<and>
           current_program (glUseProgram (Suc (Suc (names_used w))) w') =
             Suc (Suc (names_used w)) \<and>
           printed w w' = []"
  using assms
  by (simp add: compute_steps_succeed observation_defs glUseProgram_def record_call_def)

theorem C6_witness:
  "compiles (sample_driver [] True [] []) GL_COMPUTE_SHADER ''void main() {}'' \<and>
   links (sample_driver [] True [] []) [(GL_COMPUTE_SHADER, ''void main() {}'')] \<and>
   (case gles_compute_pure_main_shader_steps (sample_driver [] True [] [])
           ''void main() {}'' fresh_context of
      (result, w') \<Rightarrow>
        result = Ret 2 \<and>
        stages_created (issued fresh_context w') = [(GL_COMPUTE_SHADER, 1)] \<and>
        program_linked w' 2)"
  using C6_compute_only_build
          [where drv = "sample_driver [] True [] []" and c = "''void main() {}''"
             and w = fresh_context]
  by (simp add: sample_driver_def fresh_context_def case_prod_beta numeral_2_eq_2
        stages_created_def)

text \<open>
  C7 (as amended). Claimed: on a failed compile or link the diagnostic log is fetched as
  text of at most 512 characters, is always attached to the failure, and is non-empty. In
  the cube example every failing run fetches exactly one diagnostic, of at most 511
  characters (the first 511 characters of the driver's log for the failing stage or
  program), and prints it unchanged under the heading of the failing phase; a successful
  run fetches none. The fetched text is non-empty exactly when the driver's log is: the
  code adds nothing of its own to it and drops only what does not fit the buffer.
\<close>

theorem C7_diagnostic_is_the_fetched_driver_log:
  "case gles_cube_main_steps_6_to_9 drv v f w of (result, w') \<Rightarrow>
     (\<not> compiles drv GL_VERTEX_SHADER v \<longrightarrow>
        diagnostics (issued w w') = [take 511 (compiler_log drv GL_VERTEX_SHADER v)] \<and>
        printed w w' =
          ''Vertex shader error:'' @ newline @
          take 511 (compiler_log drv GL_VERTEX_SHADER v) @ newline \<and>
        (take 511 (compiler_log drv GL_VERTEX_SHADER v) = []) =
          (compiler_log drv GL_VERTEX_SHADER v = [])) \<and>
     (compiles drv GL_VERTEX_SHADER v \<and> \<not> compiles drv GL_FRAGMENT_SHADER f \<longrightarrow>
        diagnostics (issued w w') = [take 511 (compiler_log drv GL_FRAGMENT_SHADER f)] \<and>
        printed w w' =
          ''Fragment shader error:'' @ newline @
          take 511 (compiler_log drv GL_FRAGMENT_SHADER f) @ newline \<and>
        (take 511 (compiler_log drv GL_FRAGMENT_SHADER f) = []) =
          (compiler_log drv GL_FRAGMENT_SHADER f = [])) \<and>
     (compiles drv GL_VERTEX_SHADER v \<and> compiles drv GL_FRAGMENT_SHADER f \<and>
      \<not> links drv [(GL_VERTEX_SHADER, v), (GL_FRAGMENT_SHADER, f)] \<longrightarrow>
        diagnostics (issued w w') =
          [take 511 (linker_log drv [(GL_VERTEX_SHADER, v), (GL_FRAGMENT_SHADER, f)])] \<and>
        printed w w' =
          ''Program error:'' @ newline @
          take 511 (linker_log drv [(GL_VERTEX_SHADER, v), (GL_FRAGMENT_SHADER, f)]) @
          newline \<and>
        (take 511 (linker_log drv [(GL_VERTEX_SHADER, v), (GL_FRAGMENT_SHADER, f)]) = []) =
          (linker_log drv [(GL_VERTEX_SHADER, v), (GL_FRAGMENT_SHADER, f)] = [])) \<and>
     list_all (\<lambda>info. length info \<le> 511) (diagnostics (issued w w')) \<and>
     length (diagnostics (issued w w')) = (if returns_to_caller result then 0 else 1)"
proof (cases rule: createShaderProgram_cases [where drv = drv and v = v and f = f])
  case vertex_fails
  then show ?thesis
    by (simp add: gles_cube_main_is_createShaderProgram createShaderProgram_vertex_fails
          issued_def printed_def diagnostics_def)
next
  case fragment_fails
  then show ?thesis
    by (simp add: gles_cube_main_is_createShaderProgram createShaderProgram_fragment_fails
          issued_def printed_def diagnostics_def)
next
  case link_fails
  then show ?thesis
    by (simp add: gles_cube_main_is_createShaderProgram createShaderProgram_link_fails
          issued_def printed_def diagnostics_def)
next
  case succeeds
  then show ?thesis
    by (simp add: gles_cube_main_is_createShaderProgram createShaderProgram_succeeds
          issued_def printed_def diagnostics_def)
qed

theorem C7_witness:
  "\<not> compiles (sample_driver [''f''] True ''0:7: type mismatch'' []) GL_FRAGMENT_SHADER ''f'' \<and>
   compiles (sample_driver [''f''] True ''0:7: type mismatch'' []) GL_VERTEX_SHADER ''v'' \<and>
   (case gles_cube_main_steps_6_to_9 (sample_driver [''f''] True ''0:7: type mismatch'' [])
           ''v'' ''f'' fresh_context of
      (result, w') \<Rightarrow>
        diagnostics (issued fresh_context w') = [''0:7: type mismatch''] \<and>
        printed fresh_context w' =
          ''Fragment shader error:'' @ newline @ ''0:7: type mismatch'' @ newline)"
  using C7_diagnostic_is_the_fetched_driver_log
          [where drv = "sample_driver [''f''] True ''0:7: type mismatch'' []"
             and v = "''v''" and f = "''f''" and w = fresh_context]
  by (simp add: sample_driver_def fresh_context_def case_prod_beta)

theorem C7_counterexample:
  "\<not> links (sample_driver [] False [] []) [(GL_VERTEX_SHADER, ''v''), (GL_FRAGMENT_SHADER, ''f'')] \<and>
   fst (gles_cube_main_steps_6_to_9 (sample_driver [] False [] []) ''v'' ''f'' fresh_context) =
     Exit (- 3) \<and>
   diagnostics (issued fresh_context
     (snd (gles_cube_main_steps_6_to_9 (sample_driver [] False [] []) ''v'' ''f''
             fresh_context))) = [[]] \<and>
   printed fresh_context
     (snd (gles_cube_main_steps_6_to_9 (sample_driver [] False [] []) ''v'' ''f''
             fresh_context)) = ''Program error:'' @ newline @ newline"
  by (simp add: gles_cube_main_is_createShaderProgram createShaderProgram_link_fails
        sample_driver_def fresh_context_def issued_def printed_def diagnostics_def)

text \<open>
  C8. Two calls of \<open>createShaderProgram\<close> with the same valid sources, one after the other,
  both return a linked program; the two handles differ, each program has its own two
  stages attached, and the second build makes the same calls a first build would, prints
  nothing and leaves the first program object as it was. Whether a build succeeds does not
  depend on the world it starts in, so an earlier build cannot change the outcome.
\<close>

theorem C8_second_build_independent_of_first:
  assumes "compiles drv GL_VERTEX_SHADER v" and "compiles drv GL_FRAGMENT_SHADER f"
    and "links drv [(GL_VERTEX_SHADER, v), (GL_FRAGMENT_SHADER, f)]"
  shows "case createShaderProgram drv v f w of (first, w1) \<Rightarrow>
         case createShaderProgram drv v f w1 of (second, w2) \<Rightarrow>
           first = Ret (Suc (Suc (Suc (names_used w)))) \<and>
           second = Ret (Suc (Suc (Suc (Suc (Suc (Suc (names_used w))))))) \<and>
           first \<noteq> second \<and>
           program_linked w2 (Suc (Suc (Suc (names_used w)))) \<and>
           program_linked w2 (Suc (Suc (Suc (Suc (Suc (Suc (names_used w))))))) \<and>
           map_of (programs w2) (Suc (Suc (Suc (names_used w)))) =
             Some \<lparr>pr_attached = [Suc (names_used w), Suc (Suc (names_used w))],
                   pr_link_status = True,
                   pr_info_log =
                     linker_log drv [(GL_VERTEX_SHADER, v), (GL_FRAGMENT_SHADER, f)]\<rparr> \<and>
           map_of (programs w2) (Suc (Suc (Suc (Suc (Suc (Suc (names_used w))))))) =
             Some \<lparr>pr_attached = [Suc (Suc (Suc (Suc (names_used w)))),
                                  Suc (Suc (Suc (Suc (Suc (names_used w)))))],
                   pr_link_status = True,
                   pr_info_log =
                     linker_log drv [(GL_VERTEX_SHADER, v), (GL_FRAGMENT_SHADER, f)]\<rparr> \<and>
           map_of (programs w2) (Suc (Suc (Suc (names_used w)))) =
             map_of (programs w1) (Suc (Suc (Suc (names_used w)))) \<and>
           issued w1 w2 =
             [CreateShader GL_VERTEX_SHADER (Suc (names_used w1)),
              ShaderSource (Suc (names_used w1)) v,
              CompileShader (Suc (names_used w1)),
              GetShaderiv_COMPILE_STATUS (Suc (names_used w1)) True,
              CreateShader GL_FRAGMENT_SHADER (Suc (Suc (names_used w1))),
              ShaderSource (Suc (Suc (names_used w1))) f,
              CompileShader (Suc (Suc (names_used w1))),
              GetShaderiv_COMPILE_STATUS (Suc (Suc (names_used w1))) True,
              CreateProgram (Suc (Suc (Suc (names_used w1)))),
              AttachShader (Suc (Suc (Suc (names_used w1)))) (Suc (names_used w1)),
              AttachShader (Suc (Suc (Suc (names_used w1)))) (Suc (Suc (names_used w1))),
              LinkProgram (Suc (Suc (Suc (names_used w1)))),
              GetProgramiv_LINK_STATUS (Suc (Suc (Suc (names_used w1)))) True,
              DeleteShader (Suc (names_used w1)),
              DeleteShader (Suc (Suc (names_used w1)))] \<and>
           printed w w2 = [] \<and>
           returns_to_caller (fst (createShaderProgram drv v f w0))"
  by (simp add: createShaderProgram_succeeds [OF assms] issued_def printed_def
        program_linked_def)

theorem C8_witness:
  "compiles (sample_driver [] True [] []) GL_VERTEX_SHADER ''v'' \<and>
   compiles (sample_driver [] True [] []) GL_FRAGMENT_SHADER ''f'' \<and>
   links (sample_driver [] True [] []) [(GL_VERTEX_SHADER, ''v''), (GL_FRAGMENT_SHADER, ''f'')] \<and>
   (case createShaderProgram (sample_driver [] True [] []) ''v'' ''f'' fresh_context of
      (first, w1) \<Rightarrow>
    case createShaderProgram (sample_driver [] True [] []) ''v'' ''f'' w1 of
      (second, w2) \<Rightarrow>
        first = Ret 3 \<and> second = Ret 6 \<and> program_linked w2 3 \<and> program_linked w2 6)"
  using C8_second_build_independent_of_first
          [where drv = "sample_driver [] True [] []" and v = "''v''" and f = "''f''"
             and w = fresh_context]
  by (simp add: sample_driver_def fresh_context_def case_prod_beta eval_nat_numeral)

text \<open>
  C9. The info log of a shader is read exactly for the shaders whose compile-status query
  answered failure, and the info log of a program exactly for the programs whose
  link-status query answered failure. A successful build reads no log and prints nothing:
  whatever the driver logged for the two stages stays in the shader objects, unread.
\<close>

theorem C9_log_read_exactly_on_failed_status:
  assumes "build \<in> {createShaderProgram, gles_cube_main_steps_6_to_9}"
  shows "case build drv v f w of (result, w') \<Rightarrow>
           shader_logs_read (issued w w') = failed_compile_queries (issued w w') \<and>
           program_logs_read (issued w w') = failed_link_queries (issued w w') \<and>
           (returns_to_caller result \<longrightarrow>
              shader_logs_read (issued w w') = [] \<and>
              program_logs_read (issued w w') = [] \<and>
              diagnostics (issued w w') = [] \<and>
              printed w w' = [] \<and>
              map (\<lambda>sh. map_option sh_info_log (map_of (shaders w') sh))
                  (map snd (stages_created (issued w w'))) =
                [Some (compiler_log drv GL_VERTEX_SHADER v),
                 Some (compiler_log drv GL_FRAGMENT_SHADER f)])"
proof -
  have b: "build = createShaderProgram" using assms by (rule two_stage_build)
  show ?thesis
  proof (cases rule: createShaderProgram_cases [where drv = drv and v = v and f = f])
    case vertex_fails
    then show ?thesis unfolding b
      by (simp add: createShaderProgram_vertex_fails observation_defs)
  next
    case fragment_fails
    then show ?thesis unfolding b
      by (simp add: createShaderProgram_fragment_fails observation_defs)
  next
    case link_fails
    then show ?thesis unfolding b
      by (simp add: createShaderProgram_link_fails observation_defs)
  next
    case succeeds
    then show ?thesis unfolding b
      by (simp add: createShaderProgram_succeeds observation_defs)
  qed
qed

theorem C9_witness:
  "createShaderProgram \<in> {createShaderProgram, gles_cube_main_steps_6_to_9} \<and>
   compiler_log (sample_driver [] True ''warning: unused variable'' ''warning: no output'')
     GL_VERTEX_SHADER ''v'' = ''warning: unused variable'' \<and>
   (case createShaderProgram
           (sample_driver [] True ''warning: unused variable'' ''warning: no output'')
           ''v'' ''f'' fresh_context of
      (result, w') \<Rightarrow>
        returns_to_caller result \<and>
        failed_compile_queries (issued fresh_context w') = [] \<and>
        failed_link_queries (issued fresh_context w') = [] \<and>
        shader_logs_read (issued fresh_context w') = [] \<and>
        program_logs_read (issued fresh_context w') = [] \<and>
        printed fresh_context w' = []) \<and>
   (case createShaderProgram
           (sample_driver [''f''] True ''warning: unused variable'' ''warning: no output'')
           ''v'' ''f'' fresh_context of
      (result, w') \<Rightarrow>
        failed_compile_queries (issued fresh_context w') = [2] \<and>
        shader_logs_read (issued fresh_context w') = [2] \<and>
        program_logs_read (issued fresh_context w') = [])"
  using C9_log_read_exactly_on_failed_status
          [where build = createShaderProgram
             and drv = "sample_driver [] True ''warning: unused variable'' ''warning: no output''"
             and v = "''v''" and f = "''f''" and w = fresh_context]
        C9_log_read_exactly_on_failed_status
          [where build = createShaderProgram
             and drv = "sample_driver [''f''] True ''warning: unused variable'' ''warning: no output''"
             and v = "''v''" and f = "''f''" and w = fresh_context]
  by (simp add: createShaderProgram_succeeds createShaderProgram_fragment_fails
        sample_driver_def fresh_context_def observation_defs eval_nat_numeral)

text \<open>
  C10. Every pipeline either falls through with a program or leaves the process with status
  \<open>-3\<close>, whichever phase failed: vertex compile, fragment compile or link in the
  two-stage pipelines, compute compile or link in the compute example. What tells the
  phases apart is the heading of the printed diagnostic.
\<close>

theorem C10_every_failure_exits_with_minus_3:
  assumes "build \<in> {createShaderProgram, gles_cube_main_steps_6_to_9}"
  shows "(case build drv v f w of (result, w') \<Rightarrow>
            (returns_to_caller result \<or> result = Exit (- 3)) \<and>
            (\<not> compiles drv GL_VERTEX_SHADER v \<longrightarrow>
               result = Exit (- 3) \<and>
               printed w w' =
                 ''Vertex shader error:'' @ newline @
                 take 511 (compiler_log drv GL_VERTEX_SHADER v) @ newline) \<and>
            (compiles drv GL_VERTEX_SHADER v \<and> \<not> compiles drv GL_FRAGMENT_SHADER f \<longrightarrow>
               result = Exit (- 3) \<and>
               printed w w' =
                 ''Fragment shader error:'' @ newline @
                 take 511 (compiler_log drv GL_FRAGMENT_SHADER f) @ newline) \<and>
            (compiles drv GL_VERTEX_SHADER v \<and> compiles drv GL_FRAGMENT_SHADER f \<and>
             \<not> links drv [(GL_VERTEX_SHADER, v), (GL_FRAGMENT_SHADER, f)] \<longrightarrow>
               result = Exit (- 3) \<and>
               printed w w' =
                 ''Program error:'' @ newline @
                 take 511 (linker_log drv [(GL_VERTEX_SHADER, v), (GL_FRAGMENT_SHADER, f)]) @
                 newline)) \<and>
         (case gles_compute_pure_main_shader_steps drv c w of (result, w') \<Rightarrow>
            (returns_to_caller result \<or> result = Exit (- 3)) \<and>
            (\<not> compiles drv GL_COMPUTE_SHADER c \<longrightarrow>
               result = Exit (- 3) \<and>
               printed w w' =
                 ''Compute shader error:'' @ newline @
                 take 511 (compiler_log drv GL_COMPUTE_SHADER c) @ newline) \<and>
            (compiles drv GL_COMPUTE_SHADER c \<and> \<not> links drv [(GL_COMPUTE_SHADER, c)] \<longrightarrow>
               result = Exit (- 3) \<and>
               printed w w' =
                 ''Program error:'' @ newline @
                 take 511 (linker_log drv [(GL_COMPUTE_SHADER, c)]) @ newline))"
proof -
  have b: "build = createShaderProgram" using assms by (rule two_stage_build)
  have two: "case createShaderProgram drv v f w of (result, w') \<Rightarrow>
            (returns_to_caller result \<or> result = Exit (- 3)) \<and>
            (\<not> compiles drv GL_VERTEX_SHADER v \<longrightarrow>
               result = Exit (- 3) \<and>
               printed w w' =
                 ''Vertex shader error:'' @ newline @
                 take 511 (compiler_log drv GL_VERTEX_SHADER v) @ newline) \<and>
            (compiles drv GL_VERTEX_SHADER v \<and> \<not> compiles drv GL_FRAGMENT_SHADER f \<longrightarrow>
               result = Exit (- 3) \<and>
               printed w w' =
                 ''Fragment shader error:'' @ newline @
                 take 511 (compiler_log drv GL_FRAGMENT_SHADER f) @ newline) \<and>
            (compiles drv GL_VERTEX_SHADER v \<and> compiles drv GL_FRAGMENT_SHADER f \<and>
             \<not> links drv [(GL_VERTEX_SHADER, v), (GL_FRAGMENT_SHADER, f)] \<longrightarrow>
               result = Exit (- 3) \<and>
               printed w w' =
                 ''Program error:'' @ newline @
                 take 511 (linker_log drv [(GL_VERTEX_SHADER, v), (GL_FRAGMENT_SHADER, f)]) @
                 newline)"
  proof (cases rule: createShaderProgram_cases [where drv = drv and v = v and f = f])
    case vertex_fails
    then show ?thesis by (simp add: createShaderProgram_vertex_fails printed_def)
  next
    case fragment_fails
    then show ?thesis by (simp add: createShaderProgram_fragment_fails printed_def)
  next
    case link_fails
    then show ?thesis by (simp add: createShaderProgram_link_fails printed_def)
  next
    case succeeds
    then show ?thesis by (simp add: createShaderProgram_succeeds printed_def)
  qed
  have one: "case gles_compute_pure_main_shader_steps drv c w of (result, w') \<Rightarrow>
            (returns_to_caller result \<or> result = Exit (- 3)) \<and>
            (\<not> compiles drv GL_COMPUTE_SHADER c \<longrightarrow>
               result = Exit (- 3) \<and>
               printed w w' =
                 ''Compute shader error:'' @ newline @
                 take 511 (compiler_log drv GL_COMPUTE_SHADER c) @ newline) \<and>
            (compiles drv GL_COMPUTE_SHADER c \<and> \<not> links drv [(GL_COMPUTE_SHADER, c)] \<longrightarrow>
               result = Exit (- 3) \<and>
               printed w w' =
                 ''Program error:'' @ newline @
                 take 511 (linker_log drv [(GL_COMPUTE_SHADER, c)]) @ newline)"
  proof (cases "compiles drv GL_COMPUTE_SHADER c")
    case False
    then show ?thesis by (simp add: compute_steps_compile_fails printed_def)
  next
    case True
    show ?thesis
    proof (cases "links drv [(GL_COMPUTE_SHADER, c)]")
      case False
      with True show ?thesis by (simp add: compute_steps_link_fails printed_def)
    next
      case l: True
      with True show ?thesis by (simp add: compute_steps_succeed printed_def)
    qed
  qed
  from two one show ?thesis unfolding b by (rule conjI)
qed

theorem C10_witness:
  "createShaderProgram \<in> {createShaderProgram, gles_cube_main_steps_6_to_9} \<and>
   \<not> compiles (sample_driver [''v'', ''c''] True ''0:1: error'' []) GL_VERTEX_SHADER ''v'' \<and>
   \<not> compiles (sample_driver [''v'', ''c''] True ''0:1: error'' []) GL_COMPUTE_SHADER ''c'' \<and>
   (case createShaderProgram (sample_driver [''v'', ''c''] True ''0:1: error'' [])
           ''v'' ''f'' fresh_context of
      (result, w') \<Rightarrow>
        result = Exit (- 3) \<and>
        printed fresh_context w' =
          ''Vertex shader error:'' @ newline @ ''0:1: error'' @ newline) \<and>
   (case gles_compute_pure_main_shader_steps
           (sample_driver [''v'', ''c''] True ''0:1: error'' []) ''c'' fresh_context of
      (result, w') \<Rightarrow>
        result = Exit (- 3) \<and>
        printed fresh_context w' =
          ''Compute shader error:'' @ newline @ ''0:1: error'' @ newline)"
  using C10_every_failure_exits_with_minus_3
          [where build = createShaderProgram
             and drv = "sample_driver [''v'', ''c''] True ''0:1: error'' []"
             and v = "''v''" and f = "''f''" and c = "''c''" and w = fresh_context]
  by (simp add: sample_driver_def fresh_context_def case_prod_beta)

end
